theory Spec2Isabelle
  imports Main "HOL-Library.Word" "HOL-Library.Signed_Division"
begin

unbundle bit_operations_syntax

section \<open>Data model of \<^verbatim>\<open>datetime.c\<close>\<close>

text \<open>
  The units enumeration \<^verbatim>\<open>NPY_DATETIMEUNIT\<close>, in the order of \<^verbatim>\<open>_datetime_strings\<close>
  and \<^verbatim>\<open>_datetime_factors\<close>; \<open>unit_value\<close> is the C value of each enumerator, which the
  source compares with \<^verbatim>\<open><=\<close> and \<^verbatim>\<open>>\<close> and uses as a table index.
\<close>

datatype NPY_DATETIMEUNIT =
    NPY_FR_Y | NPY_FR_M | NPY_FR_W | NPY_FR_B | NPY_FR_D
  | NPY_FR_h | NPY_FR_m | NPY_FR_s | NPY_FR_ms | NPY_FR_us
  | NPY_FR_ns | NPY_FR_ps | NPY_FR_fs | NPY_FR_as | NPY_FR_GENERIC

fun unit_value :: "NPY_DATETIMEUNIT \<Rightarrow> nat" where
  "unit_value NPY_FR_Y = 0"
| "unit_value NPY_FR_M = 1"
| "unit_value NPY_FR_W = 2"
| "unit_value NPY_FR_B = 3"
| "unit_value NPY_FR_D = 4"
| "unit_value NPY_FR_h = 5"
| "unit_value NPY_FR_m = 6"
| "unit_value NPY_FR_s = 7"
| "unit_value NPY_FR_ms = 8"
| "unit_value NPY_FR_us = 9"
| "unit_value NPY_FR_ns = 10"
| "unit_value NPY_FR_ps = 11"
| "unit_value NPY_FR_fs = 12"
| "unit_value NPY_FR_as = 13"
| "unit_value NPY_FR_GENERIC = 14"

datatype NPY_CASTING =
    NPY_NO_CASTING | NPY_EQUIV_CASTING | NPY_SAFE_CASTING
  | NPY_SAME_KIND_CASTING | NPY_UNSAFE_CASTING

text \<open>
  \<^verbatim>\<open>PyArray_DatetimeMetaData\<close>: the unit and the multiplier, a C \<^verbatim>\<open>int\<close>. The multiplier
  is a 32-bit word because the source converts it to \<^verbatim>\<open>npy_uint64\<close> and multiplies it
  there, where wrap-around is defined; \<open>sint\<close> reads it as the signed value.
\<close>

record PyArray_DatetimeMetaData =
  base :: NPY_DATETIMEUNIT
  num :: "32 word"

text \<open>
  \<^verbatim>\<open>npy_datetimestruct\<close>. Signed quantities (\<^verbatim>\<open>npy_int64\<close> values and the struct's
  fields) are integers: signed overflow is undefined in C, so the model computes the
  mathematical value, with C's truncating \<open>sdiv\<close> and \<open>smod\<close> for \<^verbatim>\<open>/\<close> and \<^verbatim>\<open>%\<close>.
\<close>

record npy_datetimestruct =
  dts_year :: int
  dts_month :: int
  dts_day :: int
  dts_hour :: int
  dts_min :: int
  dts_sec :: int
  dts_us :: int
  dts_ps :: int
  dts_as :: int

definition NPY_DATETIME_NAT :: int where
  "NPY_DATETIME_NAT = - (2 ^ 63)"

text \<open>
  Python exceptions set by the source, and \<open>Undefined\<close> for the places where the C code
  has no defined result (a table read out of range, a division by zero).
\<close>

datatype py_error = ValueError | TypeError | OverflowError | RuntimeError | Undefined

text \<open>An \<^verbatim>\<open>npy_int64\<close> expression stored into a C \<^verbatim>\<open>int\<close>.\<close>

definition to_int32 :: "int \<Rightarrow> int" where
  "to_int32 x = signed_take_bit 31 x"

section \<open>Calendar kernel\<close>

definition get_day_of_week :: "int \<Rightarrow> int" where
  "get_day_of_week date =
     (let day_of_week = to_int32 ((date - 4) smod 7)
      in if day_of_week < 0 then day_of_week + 7 else day_of_week)"

definition days_per_month_table :: "int list list" where
  "days_per_month_table =
     [[31, 28, 31, 30, 31, 30, 31, 31, 30, 31, 30, 31],
      [31, 29, 31, 30, 31, 30, 31, 31, 30, 31, 30, 31]]"

definition is_leapyear :: "int \<Rightarrow> bool" where
  "is_leapyear year \<longleftrightarrow>
     (year AND 3) = 0 \<and> (year smod 100 \<noteq> 0 \<or> year smod 400 = 0)"

definition month_lengths_of :: "int \<Rightarrow> int list" where
  "month_lengths_of year = days_per_month_table ! (if is_leapyear year then 1 else 0)"

text \<open>
  The loop \<^verbatim>\<open>for (i = 0; i < month; ++i) days += month_lengths[i]\<close> of
  \<^verbatim>\<open>get_datetimestruct_days\<close>. The row has 12 entries: a read at \<open>i \<ge> 12\<close> is outside it.
\<close>

function add_months :: "int list \<Rightarrow> int \<Rightarrow> int \<Rightarrow> int \<Rightarrow> py_error + int" where
  "add_months month_lengths month i days =
     (if i < month then
        (if 0 \<le> i \<and> i < 12
         then add_months month_lengths month (i + 1) (days + month_lengths ! nat i)
         else Inl Undefined)
      else Inr days)"
  by pat_completeness auto
termination
  by (relation "measure (\<lambda>(l, month, i, days). nat (month - i))") auto

declare add_months.simps [simp del]

definition leap_adjusted_days :: "int \<Rightarrow> int" where
  "leap_adjusted_days dyear =
     (let year = dyear - 1970; days = year * 365 in
      if days \<ge> 0 then
        (let year = year + 1;
             days = days + year sdiv 4;
             year = year + 68;
             days = days - year sdiv 100;
             year = year + 300;
             days = days + year sdiv 400
         in days)
      else
        (let year = year - 2;
             days = days + year sdiv 4;
             year = year - 28;
             days = days - year sdiv 100;
             days = days + year sdiv 400
         in days))"

definition get_datetimestruct_days :: "npy_datetimestruct \<Rightarrow> py_error + int" where
  "get_datetimestruct_days dts =
     (let days = leap_adjusted_days (dts_year dts);
          month_lengths = month_lengths_of (dts_year dts);
          month = dts_month dts - 1
      in case add_months month_lengths month 0 days of
           Inl e \<Rightarrow> Inl e
         | Inr days \<Rightarrow> Inr (days + (dts_day dts - 1)))"

definition days_to_yearsdays :: "int \<Rightarrow> int \<times> int" where
  "days_to_yearsdays days0 =
     (let days_per_400years = (400 * 365 + 100 - 4 + 1 :: int);
          days = days0 - (365 * 30 + 7);
          (year, days) =
            (if days \<ge> 0
             then (400 * (days sdiv days_per_400years), days smod days_per_400years)
             else (400 * ((days - (days_per_400years - 1)) sdiv days_per_400years),
                   (let r = days smod days_per_400years
                    in if r < 0 then r + days_per_400years else r)));
          (year, days) =
            (if days \<ge> 366 then
               (let year = year + 100 * ((days - 1) sdiv (100 * 365 + 25 - 1));
                    days = (days - 1) smod (100 * 365 + 25 - 1)
                in if days \<ge> 365 then
                     (let year = year + 4 * ((days + 1) sdiv (4 * 365 + 1));
                          days = (days + 1) smod (4 * 365 + 1)
                      in if days \<ge> 366
                         then (year + (days - 1) sdiv 365, (days - 1) smod 365)
                         else (year, days))
                   else (year, days))
             else (year, days))
      in (year + 2000, days))"

text \<open>
  The loop of \<^verbatim>\<open>set_datetimestruct_days\<close> over the twelve month lengths; when no month
  matches the struct keeps its month and day.
\<close>

fun set_month_day :: "int list \<Rightarrow> int \<Rightarrow> int \<Rightarrow> npy_datetimestruct \<Rightarrow> npy_datetimestruct" where
  "set_month_day [] i days dts = dts"
| "set_month_day (len # rest) i days dts =
     (if days < len then dts\<lparr>dts_month := i + 1, dts_day := days + 1\<rparr>
      else set_month_day rest (i + 1) (days - len) dts)"

definition set_datetimestruct_days :: "int \<Rightarrow> npy_datetimestruct \<Rightarrow> npy_datetimestruct" where
  "set_datetimestruct_days days0 dts =
     (let (year, days) = days_to_yearsdays days0;
          dts = dts\<lparr>dts_year := year\<rparr>
      in set_month_day (month_lengths_of year) 0 days dts)"

definition get_nweekdays :: "int \<Rightarrow> int \<Rightarrow> int" where
  "get_nweekdays first0 second0 =
     (let swapped = (second0 < first0);
          first = (if swapped then second0 else first0);
          second = (if swapped then first0 else second0);
          dotw_first = get_day_of_week first;
          dotw_second = get_day_of_week second;
          dotw_first = (if dotw_first > 4 then 4 else dotw_first);
          dotw_second = (if dotw_second > 4 then 4 else dotw_second);
          dotw_second = (if dotw_second < dotw_first then dotw_second + 5 else dotw_second);
          ndays = to_int32 (((second - first) sdiv 7) * 5 + (dotw_second - dotw_first))
      in if swapped then - ndays else ndays)"

section \<open>Struct to value\<close>

text \<open>
  The \<^verbatim>\<open>switch (base)\<close> of \<^verbatim>\<open>convert_datetimestruct_to_datetime\<close>, entered with the day
  offset already computed; years and months are handled before it, so they and the
  generic unit fall to its \<^verbatim>\<open>default\<close>.
\<close>

fun days_to_unit :: "NPY_DATETIMEUNIT \<Rightarrow> int \<Rightarrow> npy_datetimestruct \<Rightarrow> py_error + int" where
  "days_to_unit NPY_FR_W days dts =
     Inr (if days \<ge> 0 then days sdiv 7 else (days - 6) sdiv 7)"
| "days_to_unit NPY_FR_B days dts = Inr (get_nweekdays 0 days)"
| "days_to_unit NPY_FR_D days dts = Inr days"
| "days_to_unit NPY_FR_h days dts = Inr (days * 24 + dts_hour dts)"
| "days_to_unit NPY_FR_m days dts = Inr ((days * 24 + dts_hour dts) * 60 + dts_min dts)"
| "days_to_unit NPY_FR_s days dts =
     Inr (((days * 24 + dts_hour dts) * 60 + dts_min dts) * 60 + dts_sec dts)"
| "days_to_unit NPY_FR_ms days dts =
     Inr ((((days * 24 + dts_hour dts) * 60 + dts_min dts) * 60 + dts_sec dts) * 1000
          + dts_us dts sdiv 1000)"
| "days_to_unit NPY_FR_us days dts =
     Inr ((((days * 24 + dts_hour dts) * 60 + dts_min dts) * 60 + dts_sec dts) * 1000000
          + dts_us dts)"
| "days_to_unit NPY_FR_ns days dts =
     Inr (((((days * 24 + dts_hour dts) * 60 + dts_min dts) * 60 + dts_sec dts) * 1000000
           + dts_us dts) * 1000 + dts_ps dts sdiv 1000)"
| "days_to_unit NPY_FR_ps days dts =
     Inr (((((days * 24 + dts_hour dts) * 60 + dts_min dts) * 60 + dts_sec dts) * 1000000
           + dts_us dts) * 1000000 + dts_ps dts)"
| "days_to_unit NPY_FR_fs days dts =
     Inr ((((((days * 24 + dts_hour dts) * 60 + dts_min dts) * 60 + dts_sec dts) * 1000000
            + dts_us dts) * 1000000 + dts_ps dts) * 1000 + dts_as dts sdiv 1000)"
| "days_to_unit NPY_FR_as days dts =
     Inr ((((((days * 24 + dts_hour dts) * 60 + dts_min dts) * 60 + dts_sec dts) * 1000000
            + dts_us dts) * 1000000 + dts_ps dts) * 1000000 + dts_as dts)"
| "days_to_unit NPY_FR_Y days dts = Inl ValueError"
| "days_to_unit NPY_FR_M days dts = Inl ValueError"
| "days_to_unit NPY_FR_GENERIC days dts = Inl ValueError"

definition divide_by_multiplier :: "PyArray_DatetimeMetaData \<Rightarrow> int \<Rightarrow> int" where
  "divide_by_multiplier meta ret =
     (if sint (num meta) > 1 then
        (if ret \<ge> 0 then ret sdiv sint (num meta)
         else (ret - sint (num meta) + 1) sdiv sint (num meta))
      else ret)"

definition convert_datetimestruct_to_datetime ::
  "PyArray_DatetimeMetaData \<Rightarrow> npy_datetimestruct \<Rightarrow> py_error + int" where
  "convert_datetimestruct_to_datetime meta dts =
     (if dts_year dts = NPY_DATETIME_NAT then Inr NPY_DATETIME_NAT
      else if base meta = NPY_FR_GENERIC then Inl ValueError
      else
        (case
           (if base meta = NPY_FR_Y then Inr (dts_year dts - 1970)
            else if base meta = NPY_FR_M
              then Inr (12 * (dts_year dts - 1970) + (dts_month dts - 1))
            else (case get_datetimestruct_days dts of
                    Inl e \<Rightarrow> Inl e
                  | Inr days \<Rightarrow> days_to_unit (base meta) days dts))
         of Inl e \<Rightarrow> Inl e
          | Inr ret \<Rightarrow> Inr (divide_by_multiplier meta ret)))"

section \<open>Carrying minutes and seconds into a struct\<close>

text \<open>The four \<^verbatim>\<open>while\<close> loops of \<^verbatim>\<open>add_minutes_to_datetimestruct\<close>.\<close>

function minutes_below_loop :: "npy_datetimestruct \<Rightarrow> npy_datetimestruct" where
  "minutes_below_loop dts =
     (if dts_min dts < 0
      then minutes_below_loop (dts\<lparr>dts_min := dts_min dts + 60, dts_hour := dts_hour dts - 1\<rparr>)
      else dts)"
  by pat_completeness auto
termination
  by (relation "measure (\<lambda>dts. nat (- dts_min dts))") auto

function minutes_above_loop :: "npy_datetimestruct \<Rightarrow> npy_datetimestruct" where
  "minutes_above_loop dts =
     (if dts_min dts \<ge> 60
      then minutes_above_loop (dts\<lparr>dts_min := dts_min dts - 60, dts_hour := dts_hour dts + 1\<rparr>)
      else dts)"
  by pat_completeness auto
termination
  by (relation "measure (\<lambda>dts. nat (dts_min dts))") auto

function hours_below_loop :: "npy_datetimestruct \<Rightarrow> npy_datetimestruct" where
  "hours_below_loop dts =
     (if dts_hour dts < 0
      then hours_below_loop (dts\<lparr>dts_hour := dts_hour dts + 24, dts_day := dts_day dts - 1\<rparr>)
      else dts)"
  by pat_completeness auto
termination
  by (relation "measure (\<lambda>dts. nat (- dts_hour dts))") auto

function hours_above_loop :: "npy_datetimestruct \<Rightarrow> npy_datetimestruct" where
  "hours_above_loop dts =
     (if dts_hour dts \<ge> 24
      then hours_above_loop (dts\<lparr>dts_hour := dts_hour dts - 24, dts_day := dts_day dts + 1\<rparr>)
      else dts)"
  by pat_completeness auto
termination
  by (relation "measure (\<lambda>dts. nat (dts_hour dts))") auto

declare minutes_below_loop.simps [simp del] minutes_above_loop.simps [simp del]
  hours_below_loop.simps [simp del] hours_above_loop.simps [simp del]

text \<open>\<^verbatim>\<open>_days_per_month_table[isleap][dts->month-1]\<close>; the row has 12 entries.\<close>

definition month_length_at :: "int \<Rightarrow> int \<Rightarrow> py_error + int" where
  "month_length_at year month =
     (if 1 \<le> month \<and> month \<le> 12 then Inr (month_lengths_of year ! nat (month - 1))
      else Inl Undefined)"

definition add_minutes_to_datetimestruct ::
  "npy_datetimestruct \<Rightarrow> int \<Rightarrow> py_error + npy_datetimestruct" where
  "add_minutes_to_datetimestruct dts0 minutes =
     (let dts = dts0\<lparr>dts_min := dts_min dts0 + minutes\<rparr>;
          dts = minutes_below_loop dts;
          dts = minutes_above_loop dts;
          dts = hours_below_loop dts;
          dts = hours_above_loop dts
      in if dts_day dts < 1 then
           (let dts = dts\<lparr>dts_month := dts_month dts - 1\<rparr>;
                dts = (if dts_month dts < 1
                       then dts\<lparr>dts_year := dts_year dts - 1, dts_month := 12\<rparr> else dts)
            in case month_length_at (dts_year dts) (dts_month dts) of
                 Inl e \<Rightarrow> Inl e
               | Inr len \<Rightarrow> Inr (dts\<lparr>dts_day := dts_day dts + len\<rparr>))
         else if dts_day dts > 28 then
           (case month_length_at (dts_year dts) (dts_month dts) of
              Inl e \<Rightarrow> Inl e
            | Inr len \<Rightarrow>
                if dts_day dts > len then
                  (let dts = dts\<lparr>dts_day := dts_day dts - len, dts_month := dts_month dts + 1\<rparr>
                   in Inr (if dts_month dts > 12
                           then dts\<lparr>dts_year := dts_year dts + 1, dts_month := 1\<rparr> else dts))
                else Inr dts)
         else Inr dts)"

definition add_seconds_to_datetimestruct ::
  "npy_datetimestruct \<Rightarrow> int \<Rightarrow> py_error + npy_datetimestruct" where
  "add_seconds_to_datetimestruct dts0 seconds =
     (let dts = dts0\<lparr>dts_sec := dts_sec dts0 + seconds\<rparr> in
      if dts_sec dts < 0 then
        (let minutes = dts_sec dts sdiv 60;
             dts = dts\<lparr>dts_sec := dts_sec dts smod 60\<rparr>;
             (minutes, dts) =
               (if dts_sec dts < 0 then (minutes - 1, dts\<lparr>dts_sec := dts_sec dts + 60\<rparr>)
                else (minutes, dts))
         in add_minutes_to_datetimestruct dts minutes)
      else if dts_sec dts \<ge> 60 then
        (let minutes = dts_sec dts sdiv 60;
             dts = dts\<lparr>dts_sec := dts_sec dts smod 60\<rparr>
         in add_minutes_to_datetimestruct dts minutes)
      else Inr dts)"

section \<open>Value to struct\<close>

text \<open>
  The block that \<^verbatim>\<open>convert_datetime_to_datetimestruct\<close> repeats for the units from hours
  to picoseconds: the whole days go to \<^verbatim>\<open>set_datetimestruct_days\<close>, the rest of the day is
  returned in \<^verbatim>\<open>dt\<close>.
\<close>

definition split_perday ::
  "int \<Rightarrow> int \<Rightarrow> npy_datetimestruct \<Rightarrow> npy_datetimestruct \<times> int" where
  "split_perday perday dt out =
     (if dt \<ge> 0 then (set_datetimestruct_days (dt sdiv perday) out, dt smod perday)
      else (set_datetimestruct_days ((dt - (perday - 1)) sdiv perday) out,
            (perday - 1) + (dt + 1) smod perday))"

definition initial_datetimestruct :: npy_datetimestruct where
  "initial_datetimestruct =
     \<lparr>dts_year = 1970, dts_month = 1, dts_day = 1, dts_hour = 0, dts_min = 0,
      dts_sec = 0, dts_us = 0, dts_ps = 0, dts_as = 0\<rparr>"

fun datetime_to_fields ::
  "NPY_DATETIMEUNIT \<Rightarrow> int \<Rightarrow> npy_datetimestruct \<Rightarrow> py_error + npy_datetimestruct" where
  "datetime_to_fields NPY_FR_Y dt out = Inr (out\<lparr>dts_year := 1970 + dt\<rparr>)"
| "datetime_to_fields NPY_FR_M dt out =
     (if dt \<ge> 0
      then Inr (out\<lparr>dts_year := 1970 + dt sdiv 12, dts_month := dt smod 12 + 1\<rparr>)
      else Inr (out\<lparr>dts_year := 1969 + (dt + 1) sdiv 12,
                     dts_month := 12 + (dt + 1) smod 12\<rparr>))"
| "datetime_to_fields NPY_FR_W dt out = Inr (set_datetimestruct_days (dt * 7) out)"
| "datetime_to_fields NPY_FR_B dt out =
     (let absdays =
            (if dt \<ge> 0 then 7 * ((dt + 3) sdiv 5) + ((dt + 3) smod 5) - 3
             else 7 * ((dt - 1) sdiv 5) + ((dt - 1) smod 5) + 1)
      in Inr (set_datetimestruct_days absdays out))"
| "datetime_to_fields NPY_FR_D dt out = Inr (set_datetimestruct_days dt out)"
| "datetime_to_fields NPY_FR_h dt out =
     (let (out, dt) = split_perday 24 dt out
      in Inr (out\<lparr>dts_hour := dt\<rparr>))"
| "datetime_to_fields NPY_FR_m dt out =
     (let (out, dt) = split_perday (24 * 60) dt out
      in Inr (out\<lparr>dts_hour := dt sdiv 60, dts_min := dt smod 60\<rparr>))"
| "datetime_to_fields NPY_FR_s dt out =
     (let (out, dt) = split_perday (24 * 60 * 60) dt out
      in Inr (out\<lparr>dts_hour := dt sdiv (60 * 60), dts_min := (dt sdiv 60) smod 60,
                   dts_sec := dt smod 60\<rparr>))"
| "datetime_to_fields NPY_FR_ms dt out =
     (let (out, dt) = split_perday (24 * 60 * 60 * 1000) dt out
      in Inr (out\<lparr>dts_hour := dt sdiv (60 * 60 * 1000),
                   dts_min := (dt sdiv (60 * 1000)) smod 60,
                   dts_sec := (dt sdiv 1000) smod 60,
                   dts_us := (dt smod 1000) * 1000\<rparr>))"
| "datetime_to_fields NPY_FR_us dt out =
     (let (out, dt) = split_perday (24 * 60 * 60 * 1000 * 1000) dt out
      in Inr (out\<lparr>dts_hour := dt sdiv (60 * 60 * 1000000),
                   dts_min := (dt sdiv (60 * 1000000)) smod 60,
                   dts_sec := (dt sdiv 1000000) smod 60,
                   dts_us := dt smod 1000000\<rparr>))"
| "datetime_to_fields NPY_FR_ns dt out =
     (let (out, dt) = split_perday (24 * 60 * 60 * 1000 * 1000 * 1000) dt out
      in Inr (out\<lparr>dts_hour := dt sdiv (60 * 60 * 1000000000),
                   dts_min := (dt sdiv (60 * 1000000000)) smod 60,
                   dts_sec := (dt sdiv 1000000000) smod 60,
                   dts_us := (dt sdiv 1000) smod 1000000,
                   dts_ps := (dt smod 1000) * 1000\<rparr>))"
| "datetime_to_fields NPY_FR_ps dt out =
     (let (out, dt) = split_perday (24 * 60 * 60 * 1000 * 1000 * 1000 * 1000) dt out
      in Inr (out\<lparr>dts_hour := dt sdiv (60 * 60 * 1000000000000),
                   dts_min := (dt sdiv (60 * 1000000000000)) smod 60,
                   dts_sec := (dt sdiv 1000000000000) smod 60,
                   dts_us := (dt sdiv 1000000) smod 1000000,
                   dts_ps := dt smod 1000000\<rparr>))"
| "datetime_to_fields NPY_FR_fs dt out =
     (if dt \<ge> 0 then
        Inr (out\<lparr>dts_hour := dt sdiv (60 * 60 * 1000000000000000),
                  dts_min := (dt sdiv (60 * 1000000000000000)) smod 60,
                  dts_sec := (dt sdiv 1000000000000000) smod 60,
                  dts_us := (dt sdiv 1000000000) smod 1000000,
                  dts_ps := (dt sdiv 1000) smod 1000000,
                  dts_as := (dt smod 1000) * 1000\<rparr>)
      else
        (let minutes = dt sdiv (60 * 1000000000000000);
             dt = dt smod (60 * 1000000000000000);
             (dt, minutes) =
               (if dt < 0 then (dt + 60 * 1000000000000000, minutes - 1) else (dt, minutes))
         in case add_minutes_to_datetimestruct out (to_int32 minutes) of
              Inl e \<Rightarrow> Inl e
            | Inr out \<Rightarrow>
                Inr (out\<lparr>dts_sec := (dt sdiv 1000000000000000) smod 60,
                          dts_us := (dt sdiv 1000000000) smod 1000000,
                          dts_ps := (dt sdiv 1000) smod 1000000,
                          dts_as := (dt smod 1000) * 1000\<rparr>)))"
| "datetime_to_fields NPY_FR_as dt out =
     (if dt \<ge> 0 then
        Inr (out\<lparr>dts_sec := (dt sdiv 1000000000000000000) smod 60,
                  dts_us := (dt sdiv 1000000000000) smod 1000000,
                  dts_ps := (dt sdiv 1000000) smod 1000000,
                  dts_as := dt smod 1000000\<rparr>)
      else
        (let seconds = dt sdiv 1000000000000000000;
             dt = dt smod 1000000000000000000;
             (dt, seconds) =
               (if dt < 0 then (dt + 1000000000000000000, seconds - 1) else (dt, seconds))
         in case add_seconds_to_datetimestruct out (to_int32 seconds) of
              Inl e \<Rightarrow> Inl e
            | Inr out \<Rightarrow>
                Inr (out\<lparr>dts_us := (dt sdiv 1000000000000) smod 1000000,
                          dts_ps := (dt sdiv 1000000) smod 1000000,
                          dts_as := dt smod 1000000\<rparr>)))"
| "datetime_to_fields NPY_FR_GENERIC dt out = Inl RuntimeError"

definition convert_datetime_to_datetimestruct ::
  "PyArray_DatetimeMetaData \<Rightarrow> int \<Rightarrow> py_error + npy_datetimestruct" where
  "convert_datetime_to_datetimestruct meta dt =
     (let out = initial_datetimestruct in
      if dt = NPY_DATETIME_NAT then Inr (out\<lparr>dts_year := NPY_DATETIME_NAT\<rparr>)
      else if base meta = NPY_FR_GENERIC then Inl ValueError
      else datetime_to_fields (base meta) (dt * sint (num meta)) out)"

section \<open>Unit factors\<close>

definition datetime_factors :: "32 word list" where
  "datetime_factors = [1, 1, 7, 1, 24, 60, 60, 1000, 1000, 1000, 1000, 1000, 1000, 1, 0]"

text \<open>
  The loop of \<^verbatim>\<open>get_datetime_units_factor\<close> on \<^verbatim>\<open>npy_uint64\<close>: unsigned arithmetic wraps,
  and the function returns 0 as soon as one of the top 8 bits of the product is set.
  The table is read at \<open>unit < littlebase \<le> 14\<close> only.
\<close>

function units_factor_loop :: "nat \<Rightarrow> nat \<Rightarrow> 64 word \<Rightarrow> 64 word" where
  "units_factor_loop littlebase unit factor =
     (if littlebase > unit then
        (let factor = factor * ucast (datetime_factors ! unit)
         in if factor AND 0xff00000000000000 \<noteq> 0 then 0
            else units_factor_loop littlebase (unit + 1) factor)
      else factor)"
  by pat_completeness auto
termination
  by (relation "measure (\<lambda>(littlebase, unit, factor). littlebase - unit)") auto

declare units_factor_loop.simps [simp del]

definition get_datetime_units_factor :: "NPY_DATETIMEUNIT \<Rightarrow> NPY_DATETIMEUNIT \<Rightarrow> 64 word" where
  "get_datetime_units_factor bigbase littlebase =
     units_factor_loop (unit_value littlebase) (unit_value bigbase) 1"

text \<open>\<^verbatim>\<open>_uint64_euclidean_gcd\<close>: the swap, then the \<^verbatim>\<open>while (x != y && y != 0)\<close> loop.\<close>

function euclidean_loop :: "64 word \<Rightarrow> 64 word \<Rightarrow> 64 word" where
  "euclidean_loop x y = (if x \<noteq> y \<and> y \<noteq> 0 then euclidean_loop y (x mod y) else x)"
  by pat_completeness auto
termination
proof (relation "measure (\<lambda>(x, y). unat y)")
  show "wf (measure (\<lambda>(x, y). unat y))" by simp
next
  fix x y :: "64 word"
  assume "x \<noteq> y \<and> y \<noteq> 0"
  then have "0 < unat y" by (simp add: unat_gt_0)
  then have "unat (x mod y) < unat y" by (simp add: unat_mod)
  then show "((y, x mod y), (x, y)) \<in> measure (\<lambda>(x, y). unat y)" by simp
qed

declare euclidean_loop.simps [simp del]

definition uint64_euclidean_gcd :: "64 word \<Rightarrow> 64 word \<Rightarrow> 64 word" where
  "uint64_euclidean_gcd x y = (if x > y then euclidean_loop y x else euclidean_loop x y)"

section \<open>Conversion factor\<close>

text \<open>
  What \<^verbatim>\<open>get_datetime_conversion_factor\<close> leaves behind: the exception it set, if any,
  and the two outputs.
\<close>

record conversion_factor =
  raised :: "py_error option"
  out_num :: int
  out_denom :: int

text \<open>
  The numerator and denominator between two different units, \<open>src_base\<close> the coarser one
  (the body of \<^verbatim>\<open>if (src_base != dst_base)\<close>).
\<close>

definition units_num_denom :: "NPY_DATETIMEUNIT \<Rightarrow> NPY_DATETIMEUNIT \<Rightarrow> 64 word \<times> 64 word" where
  "units_num_denom src_base dst_base =
     (let num = (1 :: 64 word); denom = (1 :: 64 word) in
      if src_base = NPY_FR_Y then
        (if dst_base = NPY_FR_M then (num * 12, denom)
         else if dst_base = NPY_FR_W then (num * (97 + 400 * 365), denom * (400 * 7))
         else if dst_base = NPY_FR_B then
           (let num = num * word_of_int (((97 + 400 * 365) * 5) sdiv 7);
                denom = denom * 400;
                num = num * get_datetime_units_factor NPY_FR_B dst_base
            in (num, denom))
         else
           (let num = num * (97 + 400 * 365);
                denom = denom * 400;
                num = num * get_datetime_units_factor NPY_FR_D dst_base
            in (num, denom)))
      else if src_base = NPY_FR_M then
        (if dst_base = NPY_FR_W then (num * (97 + 400 * 365), denom * (400 * 12 * 7))
         else
           (let num = num * (97 + 400 * 365);
                denom = denom * (400 * 12);
                (num, denom) = (if dst_base = NPY_FR_B then (num * 5, denom * 7)
                                else (num, denom));
                num = num * get_datetime_units_factor NPY_FR_D dst_base
            in (num, denom)))
      else (num * get_datetime_units_factor src_base dst_base, denom))"

definition get_datetime_conversion_factor ::
  "PyArray_DatetimeMetaData \<Rightarrow> PyArray_DatetimeMetaData \<Rightarrow> py_error + conversion_factor" where
  "get_datetime_conversion_factor src_meta dst_meta =
     (if base src_meta = NPY_FR_GENERIC
        then Inr \<lparr>raised = None, out_num = 1, out_denom = 1\<rparr>
      else if base dst_meta = NPY_FR_GENERIC
        then Inr \<lparr>raised = Some ValueError, out_num = 0, out_denom = 0\<rparr>
      else
        (let src_num = (scast (num src_meta) :: 64 word);
             dst_num = (scast (num dst_meta) :: 64 word);
             swapped = \<not> (unit_value (base src_meta) \<le> unit_value (base dst_meta));
             src_base = (if swapped then base dst_meta else base src_meta);
             dst_base = (if swapped then base src_meta else base dst_meta);
             (num, denom) = (if src_base \<noteq> dst_base then units_num_denom src_base dst_base
                             else (1, 1))
         in if denom = 0
              then Inr \<lparr>raised = Some OverflowError, out_num = 0, out_denom = 0\<rparr>
            else
              (let (num, denom) = (if swapped then (denom, num) else (num, denom));
                   num = num * src_num;
                   denom = denom * dst_num;
                   gcd = uint64_euclidean_gcd num denom
               in if gcd = 0 then Inl Undefined
                  else Inr \<lparr>raised = None, out_num = sint (num div gcd),
                            out_denom = sint (denom div gcd)\<rparr>)))"

section \<open>Divisibility of metadata\<close>

text \<open>
  A block of C that either leaves the function (\<^verbatim>\<open>return\<close>, \<^verbatim>\<open>goto\<close>) or falls through
  to the code after it with its local variables.
\<close>

datatype ('r, 'c) flow = Return 'r | Continue 'c

text \<open>
  The body of \<^verbatim>\<open>if (dividend->base != divisor->base)\<close> in \<^verbatim>\<open>datetime_metadata_divides\<close>.
\<close>

definition divides_convert ::
  "NPY_DATETIMEUNIT \<Rightarrow> NPY_DATETIMEUNIT \<Rightarrow> bool \<Rightarrow> 64 word \<Rightarrow> 64 word
     \<Rightarrow> (bool, 64 word \<times> 64 word) flow" where
  "divides_convert dividend_base divisor_base strict_with_nonlinear_units num1 num2 =
     (case
        (if dividend_base = NPY_FR_B \<or> divisor_base = NPY_FR_B then Return False
         else if dividend_base = NPY_FR_Y then
           (if divisor_base = NPY_FR_M then Continue (num1 * 12, num2)
            else if strict_with_nonlinear_units then Return False
            else Return True)
         else if divisor_base = NPY_FR_Y then
           (if dividend_base = NPY_FR_M then Continue (num1, num2 * 12)
            else if strict_with_nonlinear_units then Return False
            else Return True)
         else if dividend_base = NPY_FR_M \<or> divisor_base = NPY_FR_M then
           (if strict_with_nonlinear_units then Return False else Return True)
         else Continue (num1, num2))
      of Return r \<Rightarrow> Return r
       | Continue (num1, num2) \<Rightarrow>
           if unit_value dividend_base > unit_value divisor_base then
             (let num2 = num2 * get_datetime_units_factor divisor_base dividend_base
              in if num2 = 0 then Return False else Continue (num1, num2))
           else
             (let num1 = num1 * get_datetime_units_factor dividend_base divisor_base
              in if num1 = 0 then Return False else Continue (num1, num2)))"

text \<open>
  \<^verbatim>\<open>datetime_metadata_divides(dividend, divisor, strict_with_nonlinear_units)\<close>. The final
  \<^verbatim>\<open>num1 % num2\<close> has no defined result when \<^verbatim>\<open>num2\<close> is 0.
\<close>

definition datetime_metadata_divides ::
  "PyArray_DatetimeMetaData \<Rightarrow> PyArray_DatetimeMetaData \<Rightarrow> bool \<Rightarrow> py_error + bool" where
  "datetime_metadata_divides dividend divisor strict_with_nonlinear_units =
     (if base divisor = NPY_FR_GENERIC then Inr True
      else if base dividend = NPY_FR_GENERIC then Inr False
      else
        (let num1 = (scast (num dividend) :: 64 word);
             num2 = (scast (num divisor) :: 64 word)
         in case
              (if base dividend \<noteq> base divisor
               then divides_convert (base dividend) (base divisor)
                      strict_with_nonlinear_units num1 num2
               else Continue (num1, num2))
            of Return r \<Rightarrow> Inr r
             | Continue (num1, num2) \<Rightarrow>
                 if num1 AND 0xff00000000000000 \<noteq> 0 \<or> num2 AND 0xff00000000000000 \<noteq> 0
                   then Inr False
                 else if num2 = 0 then Inl Undefined
                 else Inr (num1 mod num2 = 0)))"

section \<open>Casting rules\<close>

fun can_cast_datetime64_units ::
  "NPY_DATETIMEUNIT \<Rightarrow> NPY_DATETIMEUNIT \<Rightarrow> NPY_CASTING \<Rightarrow> bool" where
  "can_cast_datetime64_units src_unit dst_unit NPY_UNSAFE_CASTING = True"
| "can_cast_datetime64_units src_unit dst_unit NPY_SAME_KIND_CASTING =
     (if src_unit = NPY_FR_GENERIC \<or> dst_unit = NPY_FR_GENERIC then src_unit = dst_unit
      else (unit_value src_unit \<le> unit_value NPY_FR_D \<and> unit_value dst_unit \<le> unit_value NPY_FR_D)
         \<or> (unit_value src_unit > unit_value NPY_FR_D \<and> unit_value dst_unit > unit_value NPY_FR_D))"
| "can_cast_datetime64_units src_unit dst_unit NPY_SAFE_CASTING =
     (if src_unit = NPY_FR_GENERIC \<or> dst_unit = NPY_FR_GENERIC then src_unit = dst_unit
      else unit_value src_unit \<le> unit_value dst_unit
         \<and> ((unit_value src_unit \<le> unit_value NPY_FR_D \<and> unit_value dst_unit \<le> unit_value NPY_FR_D)
            \<or> (unit_value src_unit > unit_value NPY_FR_D \<and> unit_value dst_unit > unit_value NPY_FR_D)))"
| "can_cast_datetime64_units src_unit dst_unit casting = (src_unit = dst_unit)"

fun can_cast_timedelta64_units ::
  "NPY_DATETIMEUNIT \<Rightarrow> NPY_DATETIMEUNIT \<Rightarrow> NPY_CASTING \<Rightarrow> bool" where
  "can_cast_timedelta64_units src_unit dst_unit NPY_UNSAFE_CASTING = True"
| "can_cast_timedelta64_units src_unit dst_unit NPY_SAME_KIND_CASTING =
     (if src_unit = NPY_FR_GENERIC \<or> dst_unit = NPY_FR_GENERIC then src_unit = dst_unit
      else (unit_value src_unit \<le> unit_value NPY_FR_M \<and> unit_value dst_unit \<le> unit_value NPY_FR_M)
         \<or> (unit_value src_unit > unit_value NPY_FR_M \<and> unit_value dst_unit > unit_value NPY_FR_M))"
| "can_cast_timedelta64_units src_unit dst_unit NPY_SAFE_CASTING =
     (if src_unit = NPY_FR_GENERIC \<or> dst_unit = NPY_FR_GENERIC then src_unit = dst_unit
      else unit_value src_unit \<le> unit_value dst_unit
         \<and> ((unit_value src_unit \<le> unit_value NPY_FR_M \<and> unit_value dst_unit \<le> unit_value NPY_FR_M)
            \<or> (unit_value src_unit > unit_value NPY_FR_M \<and> unit_value dst_unit > unit_value NPY_FR_M)))"
| "can_cast_timedelta64_units src_unit dst_unit casting = (src_unit = dst_unit)"

text \<open>
  The metadata rules. Under safe casting \<^verbatim>\<open>&&\<close> evaluates \<^verbatim>\<open>datetime_metadata_divides\<close>
  only when the units rule holds; the source passes \<^verbatim>\<open>src_meta\<close> as the dividend and
  \<^verbatim>\<open>dst_meta\<close> as the divisor.
\<close>

fun can_cast_datetime64_metadata ::
  "PyArray_DatetimeMetaData \<Rightarrow> PyArray_DatetimeMetaData \<Rightarrow> NPY_CASTING \<Rightarrow> py_error + bool" where
  "can_cast_datetime64_metadata src_meta dst_meta NPY_UNSAFE_CASTING = Inr True"
| "can_cast_datetime64_metadata src_meta dst_meta NPY_SAME_KIND_CASTING =
     Inr (can_cast_datetime64_units (base src_meta) (base dst_meta) NPY_SAME_KIND_CASTING)"
| "can_cast_datetime64_metadata src_meta dst_meta NPY_SAFE_CASTING =
     (if can_cast_datetime64_units (base src_meta) (base dst_meta) NPY_SAFE_CASTING
      then datetime_metadata_divides src_meta dst_meta False
      else Inr False)"
| "can_cast_datetime64_metadata src_meta dst_meta casting =
     Inr (base src_meta = base dst_meta \<and> num src_meta = num dst_meta)"

fun can_cast_timedelta64_metadata ::
  "PyArray_DatetimeMetaData \<Rightarrow> PyArray_DatetimeMetaData \<Rightarrow> NPY_CASTING \<Rightarrow> py_error + bool" where
  "can_cast_timedelta64_metadata src_meta dst_meta NPY_UNSAFE_CASTING = Inr True"
| "can_cast_timedelta64_metadata src_meta dst_meta NPY_SAME_KIND_CASTING =
     Inr (can_cast_timedelta64_units (base src_meta) (base dst_meta) NPY_SAME_KIND_CASTING)"
| "can_cast_timedelta64_metadata src_meta dst_meta NPY_SAFE_CASTING =
     (if can_cast_timedelta64_units (base src_meta) (base dst_meta) NPY_SAFE_CASTING
      then datetime_metadata_divides src_meta dst_meta True
      else Inr False)"
| "can_cast_timedelta64_metadata src_meta dst_meta casting =
     Inr (base src_meta = base dst_meta \<and> num src_meta = num dst_meta)"

section \<open>Greatest common divisor of metadata\<close>

text \<open>
  The chain of \<^verbatim>\<open>if\<close>s over the nonlinear units in
  \<^verbatim>\<open>compute_datetime_metadata_greatest_common_divisor\<close>. It assigns \<^verbatim>\<open>base\<close> in its
  branches (\<open>None\<close> where no branch assigns it) and leaves through
  \<^verbatim>\<open>goto incompatible_units\<close> with a \<open>TypeError\<close>.
\<close>

definition gcd_nonlinear ::
  "NPY_DATETIMEUNIT \<Rightarrow> NPY_DATETIMEUNIT \<Rightarrow> bool \<Rightarrow> bool \<Rightarrow> 64 word \<Rightarrow> 64 word
     \<Rightarrow> (py_error, NPY_DATETIMEUNIT option \<times> 64 word \<times> 64 word) flow" where
  "gcd_nonlinear base1 base2 strict_with_nonlinear_units1 strict_with_nonlinear_units2 num1 num2 =
     (if base1 = NPY_FR_Y then
        (if base2 = NPY_FR_M then Continue (Some NPY_FR_M, num1 * 12, num2)
         else if strict_with_nonlinear_units1 then Return TypeError
         else Continue (Some base2, num1, num2))
      else if base1 = NPY_FR_B \<or> base2 = NPY_FR_B then
        (if strict_with_nonlinear_units1 \<or> strict_with_nonlinear_units2 then Return TypeError
         else
           (let b = (if unit_value base1 > unit_value base2 then base1 else base2);
                b = (if b = NPY_FR_B then NPY_FR_D else b)
            in Continue (Some b, num1, num2)))
      else if base2 = NPY_FR_Y then
        (if base1 = NPY_FR_M then Continue (Some NPY_FR_M, num1, num2 * 12)
         else if strict_with_nonlinear_units2 then Return TypeError
         else Continue (Some base1, num1, num2))
      else if base1 = NPY_FR_M then
        (if strict_with_nonlinear_units1 then Return TypeError
         else Continue (Some base2, num1, num2))
      else if base2 = NPY_FR_M then
        (if strict_with_nonlinear_units2 then Return TypeError
         else Continue (Some base1, num1, num2))
      else Continue (None, num1, num2))"

text \<open>
  The \<^verbatim>\<open>else\<close> branch of \<^verbatim>\<open>if (meta1->base == meta2->base)\<close>: the chain above, then the
  block ``Take the greater base'', which assigns \<^verbatim>\<open>base\<close> again whatever the chain chose.
\<close>

definition gcd_different_bases ::
  "NPY_DATETIMEUNIT \<Rightarrow> NPY_DATETIMEUNIT \<Rightarrow> bool \<Rightarrow> bool \<Rightarrow> 64 word \<Rightarrow> 64 word
     \<Rightarrow> (py_error, NPY_DATETIMEUNIT \<times> 64 word \<times> 64 word) flow" where
  "gcd_different_bases base1 base2 strict_with_nonlinear_units1 strict_with_nonlinear_units2
       num1 num2 =
     (case gcd_nonlinear base1 base2 strict_with_nonlinear_units1
             strict_with_nonlinear_units2 num1 num2
      of Return e \<Rightarrow> Return e
       | Continue (b, num1, num2) \<Rightarrow>
           if unit_value base1 > unit_value base2 then
             (let num2 = num2 * get_datetime_units_factor base2 base1
              in if num2 = 0 then Return OverflowError else Continue (base1, num1, num2))
           else
             (let num1 = num1 * get_datetime_units_factor base1 base2
              in if num1 = 0 then Return OverflowError else Continue (base2, num1, num2)))"

definition compute_datetime_metadata_greatest_common_divisor ::
  "PyArray_DatetimeMetaData \<Rightarrow> PyArray_DatetimeMetaData \<Rightarrow> bool \<Rightarrow> bool
     \<Rightarrow> py_error + PyArray_DatetimeMetaData" where
  "compute_datetime_metadata_greatest_common_divisor meta1 meta2
       strict_with_nonlinear_units1 strict_with_nonlinear_units2 =
     (if base meta1 = NPY_FR_GENERIC then Inr meta2
      else if base meta2 = NPY_FR_GENERIC then Inr meta1
      else
        (let num1 = (scast (num meta1) :: 64 word);
             num2 = (scast (num meta2) :: 64 word)
         in case
              (if base meta1 = base meta2 then Continue (base meta1, num1, num2)
               else gcd_different_bases (base meta1) (base meta2)
                      strict_with_nonlinear_units1 strict_with_nonlinear_units2 num1 num2)
            of Return e \<Rightarrow> Inl e
             | Continue (b, num1, num2) \<Rightarrow>
                 (let n = uint64_euclidean_gcd num1 num2;
                      out_meta = \<lparr>base = b, num = (ucast n :: 32 word)\<rparr>
                  in if sint (num out_meta) \<le> 0 \<or> n \<noteq> scast (num out_meta)
                     then Inl OverflowError
                     else Inr out_meta)))"

text \<open>
  The comparison of two metadata at the end of \<^verbatim>\<open>has_equivalent_datetime_metadata\<close>
  (``For generic units, the num is ignored'').
\<close>

definition has_equivalent_datetime_metadata ::
  "PyArray_DatetimeMetaData \<Rightarrow> PyArray_DatetimeMetaData \<Rightarrow> bool" where
  "has_equivalent_datetime_metadata meta1 meta2 =
     (if base meta1 = NPY_FR_GENERIC \<and> base meta2 = NPY_FR_GENERIC then True
      else base meta1 = base meta2 \<and> num meta1 = num meta2)"

section \<open>Parsing metadata strings\<close>

text \<open>
  A C string is the list of its bytes; the byte at its length is the terminating NUL,
  which is the furthest the parsers read.
\<close>

definition char_at :: "string \<Rightarrow> nat \<Rightarrow> char" where
  "char_at buf i = (if i < length buf then buf ! i else CHR 0x00)"

definition isspace :: "char \<Rightarrow> bool" where
  "isspace c \<longleftrightarrow> c \<in> set [CHR '' '', CHR 0x09, CHR 0x0A, CHR 0x0B, CHR 0x0C, CHR 0x0D]"

definition isdigit :: "char \<Rightarrow> bool" where
  "isdigit c \<longleftrightarrow> (48 :: nat) \<le> of_char c \<and> of_char c \<le> (57 :: nat)"

definition digits_value :: "string \<Rightarrow> int" where
  "digits_value ds = foldl (\<lambda>acc c. acc * 10 + (int (of_char c) - 48)) 0 ds"

text \<open>
  \<^verbatim>\<open>strtol(buf + start, &end, 10)\<close> with a 64-bit \<^verbatim>\<open>long\<close>: white space, an optional sign,
  decimal digits; the value is clamped to the range of \<^verbatim>\<open>long\<close>; with no digit nothing is
  consumed and the result is 0. Returns the value and the offset of \<^verbatim>\<open>end\<close>.
\<close>

definition strtol :: "string \<Rightarrow> nat \<Rightarrow> int \<times> nat" where
  "strtol buf start =
     (let rest = drop start buf;
          spaces = takeWhile isspace rest;
          rest = dropWhile isspace rest;
          (negative, nsign, rest) =
            (case rest of
               [] \<Rightarrow> (False, 0, rest)
             | c # cs \<Rightarrow>
                 if c = CHR ''-'' then (True, 1, cs)
                 else if c = CHR ''+'' then (False, 1, cs)
                 else (False, 0, rest));
          digits = takeWhile isdigit rest
      in if digits = [] then (0, start)
         else
           (let v = (if negative then - digits_value digits else digits_value digits)
            in (max (- (2 ^ 63)) (min (2 ^ 63 - 1) v),
                start + length spaces + nsign + length digits)))"

definition parse_datetime_unit_from_string ::
  "string \<Rightarrow> nat \<Rightarrow> nat \<Rightarrow> py_error + NPY_DATETIMEUNIT" where
  "parse_datetime_unit_from_string buf str len =
     (let c = char_at buf str;
          found =
            (if len = 1 then
               (if c = CHR ''Y'' then Some NPY_FR_Y
                else if c = CHR ''M'' then Some NPY_FR_M
                else if c = CHR ''W'' then Some NPY_FR_W
                else if c = CHR ''B'' then Some NPY_FR_B
                else if c = CHR ''D'' then Some NPY_FR_D
                else if c = CHR ''h'' then Some NPY_FR_h
                else if c = CHR ''m'' then Some NPY_FR_m
                else if c = CHR ''s'' then Some NPY_FR_s
                else None)
             else if len = 2 \<and> char_at buf (str + 1) = CHR ''s'' then
               (if c = CHR ''m'' then Some NPY_FR_ms
                else if c = CHR ''u'' then Some NPY_FR_us
                else if c = CHR ''n'' then Some NPY_FR_ns
                else if c = CHR ''p'' then Some NPY_FR_ps
                else if c = CHR ''f'' then Some NPY_FR_fs
                else if c = CHR ''a'' then Some NPY_FR_as
                else None)
             else None)
      in case found of Some u \<Rightarrow> Inr u | None \<Rightarrow> Inl TypeError)"

text \<open>
  \<^verbatim>\<open>_multiples_table\<close> as \<^verbatim>\<open>convert_datetime_divisor_to_multiple\<close> reads it: for each unit
  the first \<^verbatim>\<open>num\<close> entries of its \<^verbatim>\<open>totry\<close> row, each with the unit of the \<^verbatim>\<open>baseunit\<close> row
  below it. From seconds on the source takes the row \<open>{1000, 1000000}\<close> and writes the
  next two units into the row below.
\<close>

fun multiples_table :: "NPY_DATETIMEUNIT \<Rightarrow> (int \<times> NPY_DATETIMEUNIT) list" where
  "multiples_table NPY_FR_Y = [(12, NPY_FR_M), (52, NPY_FR_W), (365, NPY_FR_D)]"
| "multiples_table NPY_FR_M = [(4, NPY_FR_W), (30, NPY_FR_D), (720, NPY_FR_h)]"
| "multiples_table NPY_FR_W =
     [(5, NPY_FR_B), (7, NPY_FR_D), (168, NPY_FR_h), (10080, NPY_FR_m)]"
| "multiples_table NPY_FR_B = [(24, NPY_FR_h), (1440, NPY_FR_m), (86400, NPY_FR_s)]"
| "multiples_table NPY_FR_D = [(24, NPY_FR_h), (1440, NPY_FR_m), (86400, NPY_FR_s)]"
| "multiples_table NPY_FR_h = [(60, NPY_FR_m), (3600, NPY_FR_s)]"
| "multiples_table NPY_FR_m = [(60, NPY_FR_s), (60000, NPY_FR_ms)]"
| "multiples_table NPY_FR_s = [(1000, NPY_FR_ms), (1000000, NPY_FR_us)]"
| "multiples_table NPY_FR_ms = [(1000, NPY_FR_us), (1000000, NPY_FR_ns)]"
| "multiples_table NPY_FR_us = [(1000, NPY_FR_ns), (1000000, NPY_FR_ps)]"
| "multiples_table NPY_FR_ns = [(1000, NPY_FR_ps), (1000000, NPY_FR_fs)]"
| "multiples_table NPY_FR_ps = [(1000, NPY_FR_fs), (1000000, NPY_FR_as)]"
| "multiples_table NPY_FR_fs = [(1000, NPY_FR_as)]"
| "multiples_table NPY_FR_as = []"
| "multiples_table NPY_FR_GENERIC = []"

text \<open>
  The search loop: \<^verbatim>\<open>q = totry[i] / den; r = totry[i] % den; if (r == 0) break;\<close>. The
  division has no defined result for a zero \<^verbatim>\<open>den\<close>; running out of entries is the
  \<open>ValueError\<close>.
\<close>

fun find_multiple ::
  "(int \<times> NPY_DATETIMEUNIT) list \<Rightarrow> int \<Rightarrow> py_error + (int \<times> NPY_DATETIMEUNIT)" where
  "find_multiple [] den = Inl ValueError"
| "find_multiple ((t, u) # rest) den =
     (if den = 0 then Inl Undefined
      else if t smod den = 0 then Inr (t sdiv den, u)
      else find_multiple rest den)"

definition convert_datetime_divisor_to_multiple ::
  "PyArray_DatetimeMetaData \<Rightarrow> int \<Rightarrow> py_error + PyArray_DatetimeMetaData" where
  "convert_datetime_divisor_to_multiple meta den =
     (if base meta = NPY_FR_GENERIC then Inl ValueError
      else
        (case find_multiple (multiples_table (base meta)) den of
           Inl e \<Rightarrow> Inl e
         | Inr (q, u) \<Rightarrow>
             (let product = sint (num meta) * q
              in if - (2 ^ 31) \<le> product \<and> product < 2 ^ 31
                 then Inr \<lparr>base = u, num = word_of_int product\<rparr>
                 else Inl Undefined)))"

text \<open>The loops \<^verbatim>\<open>while (p - str < len && *p != c) ++p;\<close>, with \<open>limit\<close> the offset \<open>str + len\<close>.\<close>

function scan_to_char :: "string \<Rightarrow> nat \<Rightarrow> char \<Rightarrow> nat \<Rightarrow> nat" where
  "scan_to_char buf limit c p =
     (if p < limit \<and> char_at buf p \<noteq> c then scan_to_char buf limit c (p + 1) else p)"
  by pat_completeness auto
termination
  by (relation "measure (\<lambda>(buf, limit, c, p). limit - p)") auto

declare scan_to_char.simps [simp del]

text \<open>
  \<^verbatim>\<open>parse_datetime_extended_unit_from_string(str, len, metastr, out_meta)\<close>, with \<open>buf\<close>
  the whole NUL-terminated buffer and \<open>str\<close> the offset of the substring in it. The
  multiplier read by \<^verbatim>\<open>strtol\<close> is stored as it is.
\<close>

definition parse_datetime_extended_unit_from_string ::
  "string \<Rightarrow> nat \<Rightarrow> nat \<Rightarrow> py_error + PyArray_DatetimeMetaData" where
  "parse_datetime_extended_unit_from_string buf str len =
     (let (v, substrend) = strtol buf str;
          out_num = (if str = substrend then 1 else (word_of_int v :: 32 word));
          substr = substrend;
          substrend = scan_to_char buf (str + len) (CHR ''/'') substr
      in if substr = substrend then Inl TypeError
         else
           (case parse_datetime_unit_from_string buf substr (substrend - substr) of
              Inl e \<Rightarrow> Inl e
            | Inr out_base \<Rightarrow>
                (let substr = substrend in
                 case
                   (if substr < str + len \<and> char_at buf substr = CHR ''/'' then
                      (let substr = substr + 1;
                           (v, substrend) = strtol buf substr;
                           den = to_int32 v
                       in if substr = substrend \<or> char_at buf substrend \<noteq> CHR '']''
                          then Return TypeError else Continue den)
                    else if substr \<noteq> str + len then Return TypeError
                    else Continue 1)
                 of Return e \<Rightarrow> Inl e
                  | Continue den \<Rightarrow>
                      if den \<noteq> 1
                      then convert_datetime_divisor_to_multiple
                             \<lparr>base = out_base, num = out_num\<rparr> den
                      else Inr \<lparr>base = out_base, num = out_num\<rparr>)))"

definition parse_datetime_metadata_from_metastr ::
  "string \<Rightarrow> nat \<Rightarrow> py_error + PyArray_DatetimeMetaData" where
  "parse_datetime_metadata_from_metastr metastr len =
     (if len = 0 then Inr \<lparr>base = NPY_FR_GENERIC, num = 1\<rparr>
      else if len < 3 \<or> char_at metastr 0 \<noteq> CHR ''['' then Inl TypeError
      else
        (let substr = 1;
             substrend = scan_to_char metastr len (CHR '']'') substr
         in if substrend = len \<or> substr = substrend then Inl TypeError
            else
              (case parse_datetime_extended_unit_from_string metastr substr
                      (substrend - substr) of
                 Inl e \<Rightarrow> Inl e
               | Inr out_meta \<Rightarrow>
                   if substrend + 1 \<noteq> len then Inl TypeError else Inr out_meta)))"

text \<open>
  The tuple form, \<^verbatim>\<open>convert_datetime_metadata_tuple_to_datetime_metadata\<close>, over the
  Python objects it inspects. \<^verbatim>\<open>PyInt_AsLong\<close> fails on an object that is not an integer
  and on one outside \<^verbatim>\<open>long\<close>; its result is stored into a C \<^verbatim>\<open>int\<close>.
\<close>

datatype py_object = PyBytes string | PyInt int | PyTuple "py_object list" | PyOther

fun PyInt_AsLong :: "py_object \<Rightarrow> py_error + int" where
  "PyInt_AsLong (PyInt i) =
     (if - (2 ^ 63) \<le> i \<and> i < 2 ^ 63 then Inr i else Inl OverflowError)"
| "PyInt_AsLong obj = Inl TypeError"

fun convert_datetime_metadata_tuple_to_datetime_metadata ::
  "py_object \<Rightarrow> py_error + PyArray_DatetimeMetaData" where
  "convert_datetime_metadata_tuple_to_datetime_metadata (PyTuple items) =
     (let tuple_size = length items in
      if tuple_size < 2 \<or> tuple_size > 4 then Inl TypeError
      else
        (case items ! 0 of
           PyBytes basestr \<Rightarrow>
             (case parse_datetime_unit_from_string basestr 0 (length basestr) of
                Inl e \<Rightarrow> Inl e
              | Inr out_base \<Rightarrow>
                  (case PyInt_AsLong (items ! 1) of
                     Inl e \<Rightarrow> Inl e
                   | Inr v \<Rightarrow>
                       (case (if tuple_size = 4 then PyInt_AsLong (items ! 2) else Inr 1) of
                          Inl e \<Rightarrow> Inl e
                        | Inr d \<Rightarrow>
                            (let out_meta = \<lparr>base = out_base, num = (word_of_int v :: 32 word)\<rparr>;
                                 den = to_int32 d
                             in if sint (num out_meta) \<le> 0 \<or> den \<le> 0 then Inl TypeError
                                else if den \<noteq> 1
                                  then convert_datetime_divisor_to_multiple out_meta den
                                else Inr out_meta))))
         | _ \<Rightarrow> Inl TypeError))"
| "convert_datetime_metadata_tuple_to_datetime_metadata obj = Inl TypeError"

section \<open>Evaluation and shared lemmas\<close>

lemmas calendar_defs =
  get_datetimestruct_days_def leap_adjusted_days_def month_lengths_of_def is_leapyear_def
  days_per_month_table_def set_datetimestruct_days_def days_to_yearsdays_def

lemmas units_factor_defs =
  get_datetime_units_factor_def units_factor_loop.simps datetime_factors_def
  uint64_euclidean_gcd_def euclidean_loop.simps

lemma unit_value_inj: "unit_value a = unit_value b \<Longrightarrow> a = b"
  by (cases a; cases b; simp)

lemma uint64_euclidean_gcd_sym: "uint64_euclidean_gcd x y = uint64_euclidean_gcd y x"
  by (auto simp: uint64_euclidean_gcd_def)

lemma uint64_euclidean_gcd_same: "uint64_euclidean_gcd x x = x"
  by (simp add: uint64_euclidean_gcd_def euclidean_loop.simps)

lemma ucast_scast_32_64: "(ucast (scast (n :: 32 word) :: 64 word) :: 32 word) = n"
  by (rule bit_word_eqI) (auto simp add: bit_simps)

section \<open>Casting: the safe rule\<close>

text \<open>
  Claim C1 as stated, with \<open>metadata_divides(dst, src, strict)\<close> (the destination as
  dividend), fails for the cast from \<open>2D\<close> to \<open>D\<close>: the cast is legal under safe casting,
  it is legal under same-kind casting and the units are equal, but \<open>D\<close> as dividend is not
  divisible by \<open>2D\<close>.
\<close>

theorem C1_divides_order_counterexample:
  "\<not> (can_cast_datetime64_metadata \<lparr>base = NPY_FR_D, num = 2\<rparr> \<lparr>base = NPY_FR_D, num = 1\<rparr>
          NPY_SAFE_CASTING = Inr True \<longleftrightarrow>
        can_cast_datetime64_metadata \<lparr>base = NPY_FR_D, num = 2\<rparr> \<lparr>base = NPY_FR_D, num = 1\<rparr>
          NPY_SAME_KIND_CASTING = Inr True
        \<and> unit_value NPY_FR_D \<le> unit_value NPY_FR_D
        \<and> datetime_metadata_divides \<lparr>base = NPY_FR_D, num = 1\<rparr> \<lparr>base = NPY_FR_D, num = 2\<rparr>
             False = Inr True)"
  by (simp add: datetime_metadata_divides_def)

text \<open>
  Claim C1, amended: for all source and destination metadata, a cast is legal under safe
  casting if and only if it is legal under same-kind casting, the source unit is coarser
  than or equal to the destination unit, and \<open>datetime_metadata_divides\<close> holds with the
  source as dividend and the destination as divisor; the strict flag is false for
  datetime casts and true for timedelta casts.
\<close>

theorem C1_safe_cast_rule:
  "(can_cast_datetime64_metadata src dst NPY_SAFE_CASTING = Inr True \<longleftrightarrow>
      can_cast_datetime64_metadata src dst NPY_SAME_KIND_CASTING = Inr True
      \<and> unit_value (base src) \<le> unit_value (base dst)
      \<and> datetime_metadata_divides src dst False = Inr True)
   \<and> (can_cast_timedelta64_metadata src dst NPY_SAFE_CASTING = Inr True \<longleftrightarrow>
      can_cast_timedelta64_metadata src dst NPY_SAME_KIND_CASTING = Inr True
      \<and> unit_value (base src) \<le> unit_value (base dst)
      \<and> datetime_metadata_divides src dst True = Inr True)"
  by (auto simp: datetime_metadata_divides_def)

theorem C1_safe_cast_rule_witness:
  "can_cast_datetime64_metadata \<lparr>base = NPY_FR_D, num = 2\<rparr> \<lparr>base = NPY_FR_D, num = 1\<rparr>
     NPY_SAFE_CASTING = Inr True
   \<and> can_cast_timedelta64_metadata \<lparr>base = NPY_FR_h, num = 1\<rparr> \<lparr>base = NPY_FR_m, num = 20\<rparr>
     NPY_SAFE_CASTING = Inr True"
proof -
  have d: "can_cast_datetime64_metadata \<lparr>base = NPY_FR_D, num = 2\<rparr> \<lparr>base = NPY_FR_D, num = 1\<rparr>
             NPY_SAME_KIND_CASTING = Inr True
           \<and> unit_value (base \<lparr>base = NPY_FR_D, num = 2\<rparr>)
               \<le> unit_value (base \<lparr>base = NPY_FR_D, num = 1\<rparr>)
           \<and> datetime_metadata_divides \<lparr>base = NPY_FR_D, num = 2\<rparr>
               \<lparr>base = NPY_FR_D, num = 1\<rparr> False = Inr True"
    by (simp add: datetime_metadata_divides_def)
  have t: "can_cast_timedelta64_metadata \<lparr>base = NPY_FR_h, num = 1\<rparr>
             \<lparr>base = NPY_FR_m, num = 20\<rparr> NPY_SAME_KIND_CASTING = Inr True
           \<and> unit_value (base \<lparr>base = NPY_FR_h, num = 1\<rparr>)
               \<le> unit_value (base \<lparr>base = NPY_FR_m, num = 20\<rparr>)
           \<and> datetime_metadata_divides \<lparr>base = NPY_FR_h, num = 1\<rparr>
               \<lparr>base = NPY_FR_m, num = 20\<rparr> True = Inr True"
    by (simp add: datetime_metadata_divides_def divides_convert_def units_factor_defs)
  from C1_safe_cast_rule [THEN conjunct1, THEN iffD2, OF d]
    C1_safe_cast_rule [THEN conjunct2, THEN iffD2, OF t]
  show ?thesis by (rule conjI)
qed

section \<open>Struct and value: the leap day of 2000\<close>

text \<open>
  Claim C2 as stated fails: the struct 2000-02-29 at unit \<open>D\<close> with multiplier 1 does not
  convert to 10957, and 10957 does not convert back to it (10957 is 2000-01-01).
\<close>

theorem C2_leap_day_2000_counterexample:
  "convert_datetimestruct_to_datetime \<lparr>base = NPY_FR_D, num = 1\<rparr>
       \<lparr>dts_year = 2000, dts_month = 2, dts_day = 29, dts_hour = 0, dts_min = 0,
        dts_sec = 0, dts_us = 0, dts_ps = 0, dts_as = 0\<rparr> \<noteq> Inr 10957
   \<and> convert_datetime_to_datetimestruct \<lparr>base = NPY_FR_D, num = 1\<rparr> 10957 =
       Inr \<lparr>dts_year = 2000, dts_month = 1, dts_day = 1, dts_hour = 0, dts_min = 0,
            dts_sec = 0, dts_us = 0, dts_ps = 0, dts_as = 0\<rparr>"
  by (simp add: convert_datetimestruct_to_datetime_def convert_datetime_to_datetimestruct_def
        NPY_DATETIME_NAT_def initial_datetimestruct_def divide_by_multiplier_def
        add_months.simps calendar_defs)

text \<open>
  Claim C2, amended: converting the broken-down struct 2000-02-29 00:00:00 to a value at
  unit \<open>D\<close> with multiplier 1 yields 11016, and converting the value 11016 at unit \<open>D\<close>
  with multiplier 1 back to a struct yields 2000-02-29 00:00:00.0.
\<close>

theorem C2_leap_day_2000:
  "convert_datetimestruct_to_datetime \<lparr>base = NPY_FR_D, num = 1\<rparr>
       \<lparr>dts_year = 2000, dts_month = 2, dts_day = 29, dts_hour = 0, dts_min = 0,
        dts_sec = 0, dts_us = 0, dts_ps = 0, dts_as = 0\<rparr> = Inr 11016
   \<and> convert_datetime_to_datetimestruct \<lparr>base = NPY_FR_D, num = 1\<rparr> 11016 =
       Inr \<lparr>dts_year = 2000, dts_month = 2, dts_day = 29, dts_hour = 0, dts_min = 0,
            dts_sec = 0, dts_us = 0, dts_ps = 0, dts_as = 0\<rparr>"
  by (simp add: convert_datetimestruct_to_datetime_def convert_datetime_to_datetimestruct_def
        NPY_DATETIME_NAT_def initial_datetimestruct_def divide_by_multiplier_def
        add_months.simps calendar_defs)

section \<open>Conversion factor: the overflow sentinel\<close>

text \<open>
  Claim C3 at the metadata \<open>D\<close> and \<open>ps\<close>: the units factor from days to picoseconds trips
  the top-8-bit guard and is the sentinel 0, yet the conversion factor comes back as
  \<open>0 / 1\<close> with no exception set. The sentinel is multiplied into the numerator, and the
  overflow test reads the denominator.
\<close>

theorem C3_overflow_sentinel_not_reported:
  "get_datetime_units_factor NPY_FR_D NPY_FR_ps = 0
   \<and> get_datetime_conversion_factor \<lparr>base = NPY_FR_D, num = 1\<rparr> \<lparr>base = NPY_FR_ps, num = 1\<rparr>
       = Inr \<lparr>raised = None, out_num = 0, out_denom = 1\<rparr>"
  by (simp add: get_datetime_conversion_factor_def units_num_denom_def units_factor_defs)

section \<open>Metadata divisor: business days and hours\<close>

text \<open>
  Claim C4 as stated fails: the divisor of \<open>B\<close> and \<open>h\<close> with both strict flags false is
  not \<open>D\<close>.
\<close>

theorem C4_business_day_hour_counterexample:
  "compute_datetime_metadata_greatest_common_divisor
       \<lparr>base = NPY_FR_B, num = 1\<rparr> \<lparr>base = NPY_FR_h, num = 1\<rparr> False False
     \<noteq> Inr \<lparr>base = NPY_FR_D, num = 1\<rparr>"
  by (simp add: compute_datetime_metadata_greatest_common_divisor_def gcd_different_bases_def
        gcd_nonlinear_def units_factor_defs)

text \<open>
  Claim C4, amended: the greatest common divisor of the business-day metadata \<open>B/1\<close> and
  the hour metadata \<open>h/1\<close> with both strict flags false is \<open>h/1\<close>: the result adopts the
  finer of the two units.
\<close>

theorem C4_business_day_hour:
  "compute_datetime_metadata_greatest_common_divisor
       \<lparr>base = NPY_FR_B, num = 1\<rparr> \<lparr>base = NPY_FR_h, num = 1\<rparr> False False
     = Inr \<lparr>base = NPY_FR_h, num = 1\<rparr>"
  by (simp add: compute_datetime_metadata_greatest_common_divisor_def gcd_different_bases_def
        gcd_nonlinear_def units_factor_defs)

section \<open>Not-a-Time\<close>

text \<open>
  Claim C5: for every metadata, generic units included, a struct whose year is the NaT
  sentinel converts to the NaT value without error, and the NaT value converts without
  error to a struct whose year is the NaT sentinel.
\<close>

theorem C5_nat_absorbed:
  assumes "dts_year dts = NPY_DATETIME_NAT"
  shows "convert_datetimestruct_to_datetime meta dts = Inr NPY_DATETIME_NAT
    \<and> (\<exists>out. convert_datetime_to_datetimestruct meta NPY_DATETIME_NAT = Inr out
          \<and> dts_year out = NPY_DATETIME_NAT)"
  using assms
  by (simp add: convert_datetimestruct_to_datetime_def convert_datetime_to_datetimestruct_def)

theorem C5_nat_absorbed_witness:
  "convert_datetimestruct_to_datetime \<lparr>base = NPY_FR_GENERIC, num = 1\<rparr>
       (initial_datetimestruct\<lparr>dts_year := NPY_DATETIME_NAT\<rparr>) = Inr NPY_DATETIME_NAT
   \<and> (\<exists>out. convert_datetime_to_datetimestruct \<lparr>base = NPY_FR_GENERIC, num = 1\<rparr>
               NPY_DATETIME_NAT = Inr out
          \<and> dts_year out = NPY_DATETIME_NAT)"
proof -
  have "dts_year (initial_datetimestruct\<lparr>dts_year := NPY_DATETIME_NAT\<rparr>) = NPY_DATETIME_NAT"
    by simp
  then show ?thesis by (rule C5_nat_absorbed)
qed

section \<open>Struct and value: the second before the epoch\<close>

text \<open>
  Claim C6: the struct 1969-12-31 23:59:59 at unit \<open>s\<close> with multiplier 1 converts to the
  value -1, and the value -1 at unit \<open>s\<close> with multiplier 1 converts back to the struct
  1969-12-31 23:59:59.
\<close>

theorem C6_second_before_epoch:
  "convert_datetimestruct_to_datetime \<lparr>base = NPY_FR_s, num = 1\<rparr>
       \<lparr>dts_year = 1969, dts_month = 12, dts_day = 31, dts_hour = 23, dts_min = 59,
        dts_sec = 59, dts_us = 0, dts_ps = 0, dts_as = 0\<rparr> = Inr (- 1)
   \<and> convert_datetime_to_datetimestruct \<lparr>base = NPY_FR_s, num = 1\<rparr> (- 1) =
       Inr \<lparr>dts_year = 1969, dts_month = 12, dts_day = 31, dts_hour = 23, dts_min = 59,
            dts_sec = 59, dts_us = 0, dts_ps = 0, dts_as = 0\<rparr>"
  by (simp add: convert_datetimestruct_to_datetime_def convert_datetime_to_datetimestruct_def
        NPY_DATETIME_NAT_def initial_datetimestruct_def divide_by_multiplier_def
        split_perday_def add_months.simps calendar_defs)

section \<open>Metadata divisor: commutativity and idempotence\<close>

text \<open>
  The factor the nonlinear chain puts on a multiplier: 12 on the years' side of a pair of
  years and months, 1 otherwise.
\<close>

lemma gcd_nonlinear_Continue:
  assumes "gcd_nonlinear b1 b2 s1 s2 n1 n2 = Continue (b, x, y)"
  shows "x = n1 * (if b1 = NPY_FR_Y \<and> b2 = NPY_FR_M then 12 else 1)
       \<and> y = n2 * (if b2 = NPY_FR_Y \<and> b1 = NPY_FR_M then 12 else 1)"
  using assms by (auto simp: gcd_nonlinear_def Let_def split: if_splits)

lemma gcd_different_bases_sym:
  assumes "b1 \<noteq> b2"
    and "gcd_different_bases b1 b2 s1 s2 n1 n2 = Continue (b, x, y)"
    and "gcd_different_bases b2 b1 t1 t2 n2 n1 = Continue (b', x', y')"
  shows "b' = b \<and> x' = y \<and> y' = x"
proof -
  from assms(1) have ne: "unit_value b1 \<noteq> unit_value b2"
    using unit_value_inj by blast
  obtain c u v where c: "gcd_nonlinear b1 b2 s1 s2 n1 n2 = Continue (c, u, v)"
    using assms(2) by (auto simp: gcd_different_bases_def split: flow.splits)
  obtain c' u' v' where c': "gcd_nonlinear b2 b1 t1 t2 n2 n1 = Continue (c', u', v')"
    using assms(3) by (auto simp: gcd_different_bases_def split: flow.splits)
  note e = gcd_nonlinear_Continue [OF c] gcd_nonlinear_Continue [OF c']
  show ?thesis
  proof (cases "unit_value b1 > unit_value b2")
    case True
    with assms(2,3) c c' e show ?thesis
      by (auto simp: gcd_different_bases_def Let_def split: if_splits)
  next
    case False
    with ne have "unit_value b2 > unit_value b1" by simp
    with assms(2,3) c c' e show ?thesis
      by (auto simp: gcd_different_bases_def Let_def split: if_splits)
  qed
qed

lemma gcd_metadata_idempotent:
  assumes "0 < sint (num a)"
  shows "compute_datetime_metadata_greatest_common_divisor a a s1 s2 = Inr a"
  using assms
  by (simp add: compute_datetime_metadata_greatest_common_divisor_def
        uint64_euclidean_gcd_same Let_def ucast_scast_32_64)

lemma gcd_metadata_commutative:
  assumes "compute_datetime_metadata_greatest_common_divisor a b s1 s2 = Inr r1"
    and "compute_datetime_metadata_greatest_common_divisor b a t1 t2 = Inr r2"
  shows "has_equivalent_datetime_metadata r1 r2
     \<and> (base a \<noteq> NPY_FR_GENERIC \<or> base b \<noteq> NPY_FR_GENERIC \<longrightarrow> r1 = r2)"
proof (cases "base a = NPY_FR_GENERIC \<or> base b = NPY_FR_GENERIC")
  case True
  with assms show ?thesis
    by (auto simp: compute_datetime_metadata_greatest_common_divisor_def
          has_equivalent_datetime_metadata_def split: if_splits)
next
  case False
  show ?thesis
  proof (cases "base a = base b")
    case True
    with False assms have "r1 = r2"
      by (auto simp: compute_datetime_metadata_greatest_common_divisor_def Let_def
            uint64_euclidean_gcd_sym [of "scast (num a)" "scast (num b)"] split: if_splits)
    then show ?thesis by (simp add: has_equivalent_datetime_metadata_def)
  next
    case ne: False
    obtain c x y where 1: "gcd_different_bases (base a) (base b) s1 s2
        (scast (num a)) (scast (num b)) = Continue (c, x, y)"
      using assms(1) False ne
      by (auto simp: compute_datetime_metadata_greatest_common_divisor_def Let_def
            split: if_splits flow.splits)
    obtain c' x' y' where 2: "gcd_different_bases (base b) (base a) t1 t2
        (scast (num b)) (scast (num a)) = Continue (c', x', y')"
      using assms(2) False ne
      by (auto simp: compute_datetime_metadata_greatest_common_divisor_def Let_def
            split: if_splits flow.splits)
    from gcd_different_bases_sym [OF ne 1 2] have s: "c' = c" "x' = y" "y' = x"
      by simp_all
    from assms False ne 1 2 s have "r1 = r2"
      by (auto simp: compute_datetime_metadata_greatest_common_divisor_def Let_def
            uint64_euclidean_gcd_sym [of x y] split: if_splits)
    then show ?thesis by (simp add: has_equivalent_datetime_metadata_def)
  qed
qed

text \<open>
  Claim C7: for all metadata \<open>a\<close> and \<open>b\<close> and any strict flags, when the divisor of
  \<open>a\<close> and \<open>b\<close> and the divisor of \<open>b\<close> and \<open>a\<close> are both defined they are equal: they are
  the same metadata in the sense of \<^verbatim>\<open>has_equivalent_datetime_metadata\<close> (which ignores
  the multiplier of generic units), and the same unit and multiplier unless \<open>a\<close> and \<open>b\<close>
  are both generic. The divisor of \<open>a\<close> and \<open>a\<close> is \<open>a\<close>, for every metadata whose multiplier
  is positive.
\<close>

theorem C7_gcd_commutative_idempotent:
  "(compute_datetime_metadata_greatest_common_divisor a b s1 s2 = Inr r1
      \<and> compute_datetime_metadata_greatest_common_divisor b a t1 t2 = Inr r2
     \<longrightarrow> has_equivalent_datetime_metadata r1 r2
       \<and> (base a \<noteq> NPY_FR_GENERIC \<or> base b \<noteq> NPY_FR_GENERIC \<longrightarrow> r1 = r2))
   \<and> (0 < sint (num a)
     \<longrightarrow> compute_datetime_metadata_greatest_common_divisor a a s1 s2 = Inr a)"
  using gcd_metadata_commutative [of a b s1 s2 r1 t1 t2 r2]
    gcd_metadata_idempotent [of a s1 s2]
  by blast

theorem C7_gcd_commutative_idempotent_witness:
  "compute_datetime_metadata_greatest_common_divisor
       \<lparr>base = NPY_FR_D, num = 14\<rparr> \<lparr>base = NPY_FR_W, num = 3\<rparr> False False
     = Inr \<lparr>base = NPY_FR_D, num = 7\<rparr>
   \<and> compute_datetime_metadata_greatest_common_divisor
       \<lparr>base = NPY_FR_W, num = 3\<rparr> \<lparr>base = NPY_FR_D, num = 14\<rparr> False False
     = Inr \<lparr>base = NPY_FR_D, num = 7\<rparr>
   \<and> has_equivalent_datetime_metadata \<lparr>base = NPY_FR_D, num = 7\<rparr> \<lparr>base = NPY_FR_D, num = 7\<rparr>
   \<and> compute_datetime_metadata_greatest_common_divisor
       \<lparr>base = NPY_FR_D, num = 14\<rparr> \<lparr>base = NPY_FR_D, num = 14\<rparr> False False
     = Inr \<lparr>base = NPY_FR_D, num = 14\<rparr>"
proof -
  have 1: "compute_datetime_metadata_greatest_common_divisor
       \<lparr>base = NPY_FR_D, num = 14\<rparr> \<lparr>base = NPY_FR_W, num = 3\<rparr> False False
     = Inr \<lparr>base = NPY_FR_D, num = 7\<rparr>"
    by (simp add: compute_datetime_metadata_greatest_common_divisor_def gcd_different_bases_def
        gcd_nonlinear_def units_factor_defs)
  have 2: "compute_datetime_metadata_greatest_common_divisor
       \<lparr>base = NPY_FR_W, num = 3\<rparr> \<lparr>base = NPY_FR_D, num = 14\<rparr> False False
     = Inr \<lparr>base = NPY_FR_D, num = 7\<rparr>"
    by (simp add: compute_datetime_metadata_greatest_common_divisor_def gcd_different_bases_def
        gcd_nonlinear_def units_factor_defs)
  have 3: "0 < sint (num \<lparr>base = NPY_FR_D, num = 14\<rparr>)" by simp
  note w = C7_gcd_commutative_idempotent [of "\<lparr>base = NPY_FR_D, num = 14\<rparr>"
      "\<lparr>base = NPY_FR_W, num = 3\<rparr>" False False "\<lparr>base = NPY_FR_D, num = 7\<rparr>"
      False False "\<lparr>base = NPY_FR_D, num = 7\<rparr>"]
  from w [THEN conjunct1, rule_format, OF conjI [OF 1 2]] w [THEN conjunct2, rule_format, OF 3] 1 2
  show ?thesis by blast
qed

section \<open>Conversion factor: the two directions\<close>

lemma units_num_denom_nonzero: "snd (units_num_denom b1 b2) \<noteq> 0"
  by (simp add: units_num_denom_def Let_def split_def)

lemma conversion_factor_reversed:
  assumes g: "base a \<noteq> NPY_FR_GENERIC" "base b \<noteq> NPY_FR_GENERIC"
    and ab: "get_datetime_conversion_factor a b = Inr ab"
    and ba: "get_datetime_conversion_factor b a = Inr ba"
  shows "out_num ba = out_denom ab \<and> out_denom ba = out_num ab"
proof (cases "base a = base b")
  case True
  with g ab ba show ?thesis
    by (auto simp: get_datetime_conversion_factor_def Let_def
          uint64_euclidean_gcd_sym [of "scast (num a)" "scast (num b)"] split: if_splits)
next
  case False
  then have ne: "unit_value (base a) \<noteq> unit_value (base b)"
    using unit_value_inj by blast
  show ?thesis
  proof (cases "unit_value (base a) < unit_value (base b)")
    case True
    obtain n d where nd: "units_num_denom (base a) (base b) = (n, d)"
      by (cases "units_num_denom (base a) (base b)")
    with units_num_denom_nonzero [of "base a" "base b"] have d0: "d \<noteq> 0" by simp
    from True False g ab ba nd d0 show ?thesis
      by (auto simp: get_datetime_conversion_factor_def Let_def
          uint64_euclidean_gcd_sym [of "n * scast (num a)" "d * scast (num b)"]
          split: if_splits)
  next
    case f: False
    with ne have lt: "unit_value (base b) < unit_value (base a)" by simp
    obtain n d where nd: "units_num_denom (base b) (base a) = (n, d)"
      by (cases "units_num_denom (base b) (base a)")
    with units_num_denom_nonzero [of "base b" "base a"] have d0: "d \<noteq> 0" by simp
    from lt False g ab ba nd d0 show ?thesis
      by (auto simp: get_datetime_conversion_factor_def Let_def
          uint64_euclidean_gcd_sym [of "n * scast (num b)" "d * scast (num a)"]
          split: if_splits)
  qed
qed

text \<open>
  Claim C8 as stated fails for weeks and days: the factor from \<open>W\<close> to \<open>D\<close> is \<open>7 / 1\<close>, the
  factor from \<open>D\<close> to \<open>W\<close> is \<open>1 / 7\<close>, and the numerator of the first times the denominator
  of the second is 49, the denominator of the first times the numerator of the second 1.
\<close>

theorem C8_cross_product_counterexample:
  "get_datetime_conversion_factor \<lparr>base = NPY_FR_W, num = 1\<rparr> \<lparr>base = NPY_FR_D, num = 1\<rparr>
       = Inr \<lparr>raised = None, out_num = 7, out_denom = 1\<rparr>
   \<and> get_datetime_conversion_factor \<lparr>base = NPY_FR_D, num = 1\<rparr> \<lparr>base = NPY_FR_W, num = 1\<rparr>
       = Inr \<lparr>raised = None, out_num = 1, out_denom = 7\<rparr>
   \<and> out_num \<lparr>raised = None, out_num = 7, out_denom = 1\<rparr>
         * out_denom \<lparr>raised = None, out_num = 1, out_denom = 7\<rparr>
       \<noteq> out_denom \<lparr>raised = None, out_num = 7, out_denom = 1\<rparr>
         * out_num \<lparr>raised = None, out_num = 1, out_denom = 7\<rparr>"
  by (simp add: get_datetime_conversion_factor_def units_num_denom_def units_factor_defs)

text \<open>
  Claim C8, amended: for all metadata \<open>a\<close> and \<open>b\<close> for which both conversion factors are
  computed, the two factors are reciprocal: the numerator from \<open>a\<close> to \<open>b\<close> times the
  numerator from \<open>b\<close> to \<open>a\<close> equals the denominator from \<open>a\<close> to \<open>b\<close> times the denominator
  from \<open>b\<close> to \<open>a\<close>.
\<close>

theorem C8_conversion_factors_reciprocal:
  assumes ab: "get_datetime_conversion_factor a b = Inr ab"
    and ba: "get_datetime_conversion_factor b a = Inr ba"
  shows "out_num ab * out_num ba = out_denom ab * out_denom ba"
proof (cases "base a = NPY_FR_GENERIC \<or> base b = NPY_FR_GENERIC")
  case True
  with ab ba show ?thesis
    by (auto simp: get_datetime_conversion_factor_def split: if_splits)
next
  case False
  with conversion_factor_reversed [OF _ _ ab ba] show ?thesis by simp
qed

theorem C8_conversion_factors_reciprocal_witness:
  "get_datetime_conversion_factor \<lparr>base = NPY_FR_Y, num = 1\<rparr> \<lparr>base = NPY_FR_D, num = 1\<rparr>
       = Inr \<lparr>raised = None, out_num = 146097, out_denom = 400\<rparr>
   \<and> get_datetime_conversion_factor \<lparr>base = NPY_FR_D, num = 1\<rparr> \<lparr>base = NPY_FR_Y, num = 1\<rparr>
       = Inr \<lparr>raised = None, out_num = 400, out_denom = 146097\<rparr>
   \<and> out_num \<lparr>raised = None, out_num = 146097, out_denom = 400\<rparr>
         * out_num \<lparr>raised = None, out_num = 400, out_denom = 146097\<rparr>
       = out_denom \<lparr>raised = None, out_num = 146097, out_denom = 400\<rparr>
         * out_denom \<lparr>raised = None, out_num = 400, out_denom = 146097\<rparr>"
proof -
  have 1: "get_datetime_conversion_factor \<lparr>base = NPY_FR_Y, num = 1\<rparr> \<lparr>base = NPY_FR_D, num = 1\<rparr>
       = Inr \<lparr>raised = None, out_num = 146097, out_denom = 400\<rparr>"
    by (simp add: get_datetime_conversion_factor_def units_num_denom_def units_factor_defs)
  have 2: "get_datetime_conversion_factor \<lparr>base = NPY_FR_D, num = 1\<rparr> \<lparr>base = NPY_FR_Y, num = 1\<rparr>
       = Inr \<lparr>raised = None, out_num = 400, out_denom = 146097\<rparr>"
    by (simp add: get_datetime_conversion_factor_def units_num_denom_def units_factor_defs)
  from 1 2 C8_conversion_factors_reciprocal [OF 1 2] show ?thesis by (intro conjI)
qed

section \<open>Parsing: a zero multiplier\<close>

text \<open>
  Claim C9 at the metadata string \<open>[0D]\<close>: the string parser returns the unit \<open>D\<close> with
  the multiplier 0, where the tuple form of the same metadata is refused with a
  \<open>TypeError\<close> by its test \<^verbatim>\<open>out_meta->num <= 0\<close>.
\<close>

theorem C9_zero_multiplier_accepted:
  "parse_datetime_metadata_from_metastr ''[0D]'' 4 = Inr \<lparr>base = NPY_FR_D, num = 0\<rparr>
   \<and> convert_datetime_metadata_tuple_to_datetime_metadata (PyTuple [PyBytes ''D'', PyInt 0])
       = Inl TypeError"
  by (simp add: parse_datetime_metadata_from_metastr_def
        parse_datetime_extended_unit_from_string_def scan_to_char.simps char_at_def
        strtol_def isspace_def isdigit_def digits_value_def
        parse_datetime_unit_from_string_def)

end
